theory Spec2Isabelle
  imports Main "HOL-Library.Sublist"
begin

section \<open>Data model\<close>

text \<open>
  The service \<^verbatim>\<open>UserAuthDataService\<close> (user.auth.data.service.ts) works on
  \<^verbatim>\<open>UserAuthData\<close> objects that carry an optional \<^verbatim>\<open>fitbit\<close> sub-structure.
  Every field of the source is optional (\<^verbatim>\<open>field?: T\<close>), so every field is an
  \<open>option\<close> here; a non-null assertion \<^verbatim>\<open>x!\<close> checks nothing at run time.
\<close>

text \<open>
  Modelled from the spec: the declaration of \<^verbatim>\<open>FitbitAuthData.last_sync\<close> is not
  among the sources; section 3 of the specification calls it an optional timestamp.
  A timestamp is held as its text; the empty text is a falsy value, as the empty string
  is.
\<close>

datatype timestamp = Timestamp string

record fitbit_auth_data =
  fitbit_user_id :: "string option"  \<comment> \<open>\<^verbatim>\<open>fitbit.user_id\<close>\<close>
  access_token :: "string option"
  expires_in :: "int option"
  refresh_token :: "string option"
  scope :: "string option"
  token_type :: "string option"
  status :: "string option"
  last_sync :: "timestamp option"

record user_auth_data =
  uad_id :: "string option"  \<comment> \<open>\<^verbatim>\<open>id\<close>\<close>
  user_id :: "string option"
  fitbit :: "fitbit_auth_data option"

text \<open>The payload of a decoded token: \<^verbatim>\<open>payload.sub\<close>, \<^verbatim>\<open>payload.scopes\<close>, \<^verbatim>\<open>payload.exp\<close>,
  with the types of the fields they are assigned to.\<close>

record token_payload =
  sub :: "string option"
  scopes :: "string option"
  exp :: "int option"

datatype data_sync = DataSync string

text \<open>\<^verbatim>\<open>new Query().fromJSON({ filters: { user_id: ... } })\<close> and the filter on
  \<^verbatim>\<open>fitbit.user_id\<close>.\<close>

datatype query = Filter_user_id "string option" | Filter_fitbit_user_id "string option"

subsection \<open>Exceptions\<close>

text \<open>
  \<^verbatim>\<open>ValidationException\<close> and \<^verbatim>\<open>EventBusException\<close> take a message and an optional
  description. \<open>TypeError\<close> is what the run time raises on a property access of
  \<^verbatim>\<open>undefined\<close>; its argument is the property, and its message is the run time's
  without the quotes around the property. \<open>Exception\<close> is any other error a
  collaborator rejects with, given by its message.
\<close>

datatype exception =
    ValidationException string "string option"
  | EventBusException string "string option"
  | TypeError string
  | Exception string

fun message :: "exception \<Rightarrow> string" where
  "message (ValidationException m d) = m"
| "message (EventBusException m d) = m"
| "message (TypeError p) = ''Cannot read property '' @ p @ '' of undefined''"
| "message (Exception m) = m"

subsection \<open>JavaScript primitives used by the service\<close>

text \<open>\<^verbatim>\<open>s.split(' ')\<close>: the pieces between occurrences of the separator; the empty
  string gives one empty piece.\<close>

fun split :: "char \<Rightarrow> string \<Rightarrow> string list" where
  "split sep [] = [[]]"
| "split sep (c # cs) =
     (if c = sep then [] # split sep cs
      else (case split sep cs of
              [] \<Rightarrow> [[c]]
            | w # ws \<Rightarrow> (c # w) # ws))"

text \<open>\<^verbatim>\<open>array.includes(x)\<close>.\<close>

definition array_includes :: "string list \<Rightarrow> string \<Rightarrow> bool" where
  "array_includes xs x = (x \<in> set xs)"

text \<open>\<^verbatim>\<open>s.indexOf(pat)\<close>: the first position where \<open>pat\<close> occurs in \<open>s\<close>, or \<open>-1\<close>.\<close>

fun indexOf :: "string \<Rightarrow> string \<Rightarrow> int" where
  "indexOf [] pat = (if pat = [] then 0 else - 1)"
| "indexOf (c # cs) pat =
     (if prefix pat (c # cs) then 0
      else (let r = indexOf cs pat in if r = - 1 then - 1 else r + 1))"

text \<open>Truthiness of an optional string and of an optional number.\<close>

definition truthy_string :: "string option \<Rightarrow> bool" where
  "truthy_string v = (case v of None \<Rightarrow> False | Some s \<Rightarrow> s \<noteq> [])"

definition truthy_number :: "int option \<Rightarrow> bool" where
  "truthy_number v = (case v of None \<Rightarrow> False | Some n \<Rightarrow> n \<noteq> 0)"

definition truthy_timestamp :: "timestamp option \<Rightarrow> bool" where
  "truthy_timestamp v = (case v of None \<Rightarrow> False | Some (Timestamp s) \<Rightarrow> s \<noteq> [])"

text \<open>A template literal prints \<^verbatim>\<open>undefined\<close> for a missing value.\<close>

definition template :: "string option \<Rightarrow> string" where
  "template v = (case v of None \<Rightarrow> ''undefined'' | Some s \<Rightarrow> s)"

section \<open>Collaborators\<close>

text \<open>
  The repositories and validators are injected; their implementations are not part of
  the service. They are parameters: a record of functions over a world \<open>'w\<close> that they
  may read and change. Each asynchronous operation either resolves (\<open>Inr\<close>) or rejects
  (\<open>Inl\<close>). The validators are synchronous and throw (\<open>Some\<close>) or return (\<open>None\<close>).
\<close>

record 'w ports =
  validate :: "user_auth_data \<Rightarrow> exception option"
    \<comment> \<open>\<^verbatim>\<open>CreateUserAuthDataValidator.validate\<close>\<close>
  validate_object_id :: "string \<Rightarrow> exception option"
    \<comment> \<open>\<^verbatim>\<open>ObjectIdValidator.validate\<close>\<close>
  getTokenPayload :: "string option \<Rightarrow> 'w \<Rightarrow> (exception + token_payload) \<times> 'w"
  subscribeUserEvent ::
    "fitbit_auth_data \<Rightarrow> string \<Rightarrow> string \<Rightarrow> 'w \<Rightarrow> (exception + unit) \<times> 'w"
  revokeToken :: "string option \<Rightarrow> 'w \<Rightarrow> (exception + unit) \<times> 'w"
  repo_syncFitbitUserData ::
    "fitbit_auth_data \<Rightarrow> timestamp option \<Rightarrow> nat \<Rightarrow> string option \<Rightarrow> 'w
      \<Rightarrow> (exception + data_sync) \<times> 'w"
    \<comment> \<open>\<^verbatim>\<open>_fitbitAuthDataRepo.syncFitbitUserData\<close>\<close>
  publishLastSync :: "string option \<Rightarrow> timestamp option \<Rightarrow> 'w \<Rightarrow> (exception + unit) \<times> 'w"
  checkUserExists :: "string option \<Rightarrow> 'w \<Rightarrow> (exception + bool) \<times> 'w"
  findOne :: "query \<Rightarrow> 'w \<Rightarrow> (exception + user_auth_data option) \<times> 'w"
  update :: "user_auth_data \<Rightarrow> 'w \<Rightarrow> (exception + user_auth_data) \<times> 'w"
  create :: "user_auth_data \<Rightarrow> 'w \<Rightarrow> (exception + user_auth_data) \<times> 'w"

text \<open>Every call the service makes on a repository is recorded, in order.\<close>

datatype port_call =
    GetTokenPayload "string option"
  | SubscribeUserEvent fitbit_auth_data string string
  | RevokeToken "string option"
  | SyncFitbitUserData fitbit_auth_data "timestamp option" nat "string option"
  | PublishLastSync "string option" "timestamp option"
  | CheckUserExists "string option"
  | FindOne query
  | Update user_auth_data
  | Create user_auth_data

text \<open>The state threaded through the service: the calls made so far and the world.\<close>

type_synonym 'w state = "port_call list \<times> 'w"

type_synonym ('a, 'w) promise = "'w state \<Rightarrow> (exception + 'a) \<times> 'w state"

definition invoke :: "port_call \<Rightarrow> ('w \<Rightarrow> (exception + 'a) \<times> 'w) \<Rightarrow> ('a, 'w) promise" where
  "invoke c f s = (case f (snd s) of (r, w') \<Rightarrow> (r, (fst s @ [c], w')))"

definition resolve :: "'a \<Rightarrow> ('a, 'w) promise" where
  "resolve x s = (Inr x, s)"

definition reject :: "exception \<Rightarrow> ('a, 'w) promise" where
  "reject e s = (Inl e, s)"

text \<open>\<^verbatim>\<open>const x = await m; k x\<close> inside \<^verbatim>\<open>try\<close>: a rejection leaves the block.\<close>

definition await :: "('a, 'w) promise \<Rightarrow> ('a \<Rightarrow> ('b, 'w) promise) \<Rightarrow> ('b, 'w) promise" where
  "await m k s = (case m s of (Inl e, s') \<Rightarrow> (Inl e, s') | (Inr x, s') \<Rightarrow> k x s')"

text \<open>A call that is started and not awaited: its outcome is dropped.\<close>

definition fire :: "('a, 'w) promise \<Rightarrow> ('b, 'w) promise \<Rightarrow> ('b, 'w) promise" where
  "fire m k s = (case m s of (r, s') \<Rightarrow> k s')"

section \<open>The service\<close>

subsection \<open>\<^verbatim>\<open>manageFitbitAuthData\<close>\<close>

text \<open>Lines 163 to 166: the assignments guarded by the truthiness of the payload's
  fields, then the token type.\<close>

definition merge_payload :: "token_payload \<Rightarrow> fitbit_auth_data \<Rightarrow> fitbit_auth_data" where
  "merge_payload payload f =
     (let f1 = (if truthy_string (sub payload) then f\<lparr>fitbit_user_id := sub payload\<rparr> else f);
          f2 = (if truthy_string (scopes payload) then f1\<lparr>scope := scopes payload\<rparr> else f1);
          f3 = (if truthy_number (exp payload) then f2\<lparr>expires_in := exp payload\<rparr> else f2)
      in f3\<lparr>token_type := Some ''Bearer''\<rparr>)"

definition manageFitbitAuthData ::
  "'w ports \<Rightarrow> user_auth_data \<Rightarrow> (user_auth_data, 'w) promise" where
  "manageFitbitAuthData P data =
     (case fitbit data of
        None \<Rightarrow> reject (TypeError ''access_token'')
      | Some f \<Rightarrow>
          await (invoke (GetTokenPayload (access_token f)) (getTokenPayload P (access_token f)))
            (\<lambda>payload. resolve (data\<lparr>fitbit := Some (merge_payload payload f)\<rparr>)))"

subsection \<open>\<^verbatim>\<open>subscribeFitbitEvents\<close>\<close>

definition scope_rejection :: exception where
  "scope_rejection =
     ValidationException
       ''The token must have permission for at least one of the features that are synced by the API.''
       (Some ''The features that are mapped are: rwei (weight), ract (activity), rsle (sleep).'')"

definition subscribe ::
  "'w ports \<Rightarrow> fitbit_auth_data \<Rightarrow> string \<Rightarrow> string \<Rightarrow> (unit, 'w) promise" where
  "subscribe P f resource label =
     invoke (SubscribeUserEvent f resource label) (subscribeUserEvent P f resource label)"

definition subscribeFitbitEvents :: "'w ports \<Rightarrow> user_auth_data \<Rightarrow> (unit, 'w) promise" where
  "subscribeFitbitEvents P data =
     (case fitbit data of
        None \<Rightarrow> reject (TypeError ''scope'')
      | Some f \<Rightarrow>
         (case scope f of
            None \<Rightarrow> reject (TypeError ''split'')
          | Some sc \<Rightarrow>
             (let scopes = split (CHR '' '') sc in
              if \<not> array_includes scopes ''rwei'' \<or> \<not> array_includes scopes ''ract''
                 \<or> \<not> array_includes scopes ''rsle''
              then reject scope_rejection
              else
                await (if array_includes scopes ''rwei''
                       then subscribe P f ''body'' ''BODY'' else resolve ())
                (\<lambda>_. await (if array_includes scopes ''ract''
                             then subscribe P f ''activities'' ''ACTIVITIES'' else resolve ())
                (\<lambda>_. if array_includes scopes ''rsle''
                      then subscribe P f ''sleep'' ''SLEEP'' else resolve ())))))"

subsection \<open>\<^verbatim>\<open>add\<close>\<close>

definition user_not_registered :: "string option \<Rightarrow> exception" where
  "user_not_registered uid =
     ValidationException (''The user does not have register on platform: '' @ template uid) None"

definition eventbus_unavailable :: exception where
  "eventbus_unavailable =
     EventBusException ''Communication with the message bus cannot be performed.''
       (Some ''Probably, the message service is unavailable.'')"

text \<open>
  The \<^verbatim>\<open>try\<close> block, lines 28 to 42. \<^verbatim>\<open>manageFitbitAuthData\<close> changes its argument
  in place and returns it, so \<^verbatim>\<open>item\<close> and \<^verbatim>\<open>newItem\<close> are one object: the record
  passed to \<^verbatim>\<open>subscribeFitbitEvents\<close> is the merged one, with its status set.
  The assignment of line 30 goes through \<^verbatim>\<open>newItem.fitbit\<close>, which
  \<^verbatim>\<open>manageFitbitAuthData\<close> has read before: its failure branch is there for
  completeness and is never taken.
\<close>

definition add_try :: "'w ports \<Rightarrow> user_auth_data \<Rightarrow> (user_auth_data, 'w) promise" where
  "add_try P item =
     (case validate P item of
        Some e \<Rightarrow> reject e
      | None \<Rightarrow>
          await (manageFitbitAuthData P item)
          (\<lambda>merged.
            case fitbit merged of
              None \<Rightarrow> reject (TypeError ''status'')
            | Some f \<Rightarrow>
               (let newItem = merged\<lparr>fitbit := Some (f\<lparr>status := Some ''valid_token''\<rparr>)\<rparr> in
                await (subscribeFitbitEvents P newItem)
                (\<lambda>_. await (invoke (CheckUserExists (user_id newItem))
                               (checkUserExists P (user_id newItem)))
                (\<lambda>exists.
                  if \<not> exists then reject (user_not_registered (user_id newItem))
                  else
                    await (invoke (FindOne (Filter_user_id (user_id newItem)))
                             (findOne P (Filter_user_id (user_id newItem))))
                    (\<lambda>alreadySaved.
                      case alreadySaved of
                        Some saved \<Rightarrow>
                          (let newItem' = newItem\<lparr>uad_id := uad_id saved\<rparr> in
                           await (invoke (Update newItem') (update P newItem')) resolve)
                      | None \<Rightarrow>
                          await (invoke (Create newItem) (create P newItem)) resolve))))))"

text \<open>The \<^verbatim>\<open>catch\<close> clause, lines 43 to 50.\<close>

definition add :: "'w ports \<Rightarrow> user_auth_data \<Rightarrow> (user_auth_data, 'w) promise" where
  "add P item s =
     (case add_try P item s of
        (Inl err, s') \<Rightarrow>
          if indexOf (message err) ''rpc'' \<noteq> - 1 then (Inl eventbus_unavailable, s')
          else (Inl err, s')
      | (Inr r, s') \<Rightarrow> (Inr r, s'))"

text \<open>What the \<^verbatim>\<open>catch\<close> clause rejects with for the error it caught.\<close>

abbreviation surfaced :: "exception \<Rightarrow> exception" where
  "surfaced err \<equiv> (if indexOf (message err) ''rpc'' \<noteq> - 1 then eventbus_unavailable else err)"

subsection \<open>\<^verbatim>\<open>addFitbitAuthData\<close>\<close>

definition addFitbitAuthData ::
  "'w ports \<Rightarrow> user_auth_data \<Rightarrow> string \<Rightarrow> (user_auth_data, 'w) promise" where
  "addFitbitAuthData P data initSync =
     await (add P data)
     (\<lambda>result.
        if initSync \<noteq> ''false'' then
          (case fitbit result of
             None \<Rightarrow> reject (TypeError ''last_sync'')
           | Some f \<Rightarrow>
               fire (invoke (SyncFitbitUserData f (last_sync f) 3 (user_id result))
                       (repo_syncFitbitUserData P f (last_sync f) 3 (user_id result)))
                 (resolve result))
        else
          (case fitbit result of
             None \<Rightarrow> reject (TypeError ''last_sync'')
           | Some f \<Rightarrow>
               if initSync = ''false'' \<and> truthy_timestamp (last_sync f) then
                 fire (invoke (PublishLastSync (user_id result) (last_sync f))
                         (publishLastSync P (user_id result) (last_sync f)))
                   (resolve result)
               else resolve result))"

subsection \<open>\<^verbatim>\<open>revokeFitbitAccessToken\<close>\<close>

definition revokeFitbitAccessToken :: "'w ports \<Rightarrow> string \<Rightarrow> (bool, 'w) promise" where
  "revokeFitbitAccessToken P userId =
     (case validate_object_id P userId of
        Some e \<Rightarrow> reject e
      | None \<Rightarrow>
          await (invoke (FindOne (Filter_user_id (Some userId)))
                   (findOne P (Filter_user_id (Some userId))))
          (\<lambda>authData.
             case authData of
               None \<Rightarrow> resolve False
             | Some a \<Rightarrow>
                 (case fitbit a of
                    None \<Rightarrow> reject (TypeError ''access_token'')
                  | Some f \<Rightarrow>
                      await (invoke (RevokeToken (access_token f)) (revokeToken P (access_token f)))
                        (\<lambda>_. resolve True))))"

subsection \<open>\<^verbatim>\<open>syncFitbitUserData\<close>\<close>

definition missing_credential :: exception where
  "missing_credential =
     ValidationException
       ''User does not have authentication data. Please, submit authentication data and try again.''
       None"

definition syncFitbitUserData :: "'w ports \<Rightarrow> string \<Rightarrow> (data_sync, 'w) promise" where
  "syncFitbitUserData P userId =
     await (invoke (FindOne (Filter_user_id (Some userId)))
              (findOne P (Filter_user_id (Some userId))))
     (\<lambda>authData.
        case authData of
          None \<Rightarrow> reject missing_credential
        | Some a \<Rightarrow>
            (case fitbit a of
               None \<Rightarrow> reject missing_credential
             | Some f \<Rightarrow>
                 invoke (SyncFitbitUserData f (last_sync f) 1 (Some userId))
                   (repo_syncFitbitUserData P f (last_sync f) 1 (Some userId))))"

section \<open>Observations on the call record\<close>

fun is_subscribe :: "port_call \<Rightarrow> bool" where
  "is_subscribe (SubscribeUserEvent f r l) = True"
| "is_subscribe c = False"

fun is_write :: "port_call \<Rightarrow> bool" where
  "is_write (Update r) = True"
| "is_write (Create r) = True"
| "is_write c = False"

fun is_sync :: "port_call \<Rightarrow> bool" where
  "is_sync (SyncFitbitUserData f t n u) = True"
| "is_sync c = False"

fun is_publish :: "port_call \<Rightarrow> bool" where
  "is_publish (PublishLastSync u t) = True"
| "is_publish c = False"

fun is_revoke :: "port_call \<Rightarrow> bool" where
  "is_revoke (RevokeToken t) = True"
| "is_revoke c = False"

text \<open>The calls a run adds to the record, and its outcome.\<close>

definition outcome :: "(exception + 'a) \<times> 'w state \<Rightarrow> exception + 'a" where
  "outcome r = fst r"

definition calls :: "(exception + 'a) \<times> 'w state \<Rightarrow> port_call list" where
  "calls r = fst (snd r)"

section \<open>A credential store\<close>

text \<open>
  Modelled from the spec: the implementation of \<^verbatim>\<open>IUserAuthDataRepository\<close>
  (\<^verbatim>\<open>findOne\<close>, \<^verbatim>\<open>create\<close>, \<^verbatim>\<open>update\<close>) is not among the sources. Section 4.4 and
  section 6 of the specification describe it: a query by an equality filter on the
  internal user id or on the provider-side user id, and \<^verbatim>\<open>create\<close> and \<^verbatim>\<open>update\<close>
  keyed by record identity. The store is the list of persisted records; \<^verbatim>\<open>create\<close>
  gives the new record an identity no stored record has, \<^verbatim>\<open>update\<close> overwrites the
  record that has the identity of its argument.
\<close>

type_synonym store = "user_auth_data list"

definition store_findOne :: "query \<Rightarrow> store \<Rightarrow> user_auth_data option" where
  "store_findOne q st =
     (case q of
        Filter_user_id u \<Rightarrow> find (\<lambda>r. user_id r = u) st
      | Filter_fitbit_user_id p \<Rightarrow>
          find (\<lambda>r. case fitbit r of None \<Rightarrow> False | Some f \<Rightarrow> fitbit_user_id f = p) st)"

definition id_length :: "user_auth_data \<Rightarrow> nat" where
  "id_length r = (case uad_id r of None \<Rightarrow> 0 | Some i \<Rightarrow> length i)"

definition fresh_id :: "store \<Rightarrow> string" where
  "fresh_id st = replicate (Suc (sum_list (map id_length st))) (CHR ''0'')"

definition store_create :: "user_auth_data \<Rightarrow> store \<Rightarrow> (exception + user_auth_data) \<times> store" where
  "store_create r st = (let r' = r\<lparr>uad_id := Some (fresh_id st)\<rparr> in (Inr r', st @ [r']))"

definition store_update :: "user_auth_data \<Rightarrow> store \<Rightarrow> (exception + user_auth_data) \<times> store" where
  "store_update r st =
     (if \<exists>x \<in> set st. uad_id x = uad_id r
      then (Inr r, map (\<lambda>x. if uad_id x = uad_id r then r else x) st)
      else (Inl (Exception ''not found''), st))"

text \<open>The service's collaborators over this store. Introspection and the user directory
  are parameters; subscription, revocation, sync and publication succeed.\<close>

definition store_ports ::
  "(string option \<Rightarrow> exception + token_payload) \<Rightarrow> (string option \<Rightarrow> exception + bool)
    \<Rightarrow> store ports" where
  "store_ports introspect directory =
     \<lparr> validate = (\<lambda>item. None),
       validate_object_id = (\<lambda>userId. None),
       getTokenPayload = (\<lambda>t st. (introspect t, st)),
       subscribeUserEvent = (\<lambda>f r l st. (Inr (), st)),
       revokeToken = (\<lambda>t st. (Inr (), st)),
       repo_syncFitbitUserData = (\<lambda>f t n u st. (Inr (DataSync ''synced''), st)),
       publishLastSync = (\<lambda>u t st. (Inr (), st)),
       checkUserExists = (\<lambda>u st. (directory u, st)),
       findOne = (\<lambda>q st. (Inr (store_findOne q st), st)),
       update = store_update,
       create = store_create \<rparr>"

text \<open>At most one record per identity and per internal user.\<close>

definition store_inv :: "store \<Rightarrow> bool" where
  "store_inv st = (distinct (map uad_id st) \<and> distinct (map user_id st))"

section \<open>Concrete inputs\<close>

definition example_fitbit :: "string \<Rightarrow> string \<Rightarrow> timestamp option \<Rightarrow> fitbit_auth_data" where
  "example_fitbit token sc ts =
     \<lparr> fitbit_user_id = None, access_token = Some token, expires_in = None,
       refresh_token = Some ''refresh-1'', scope = Some sc, token_type = None,
       status = None, last_sync = ts \<rparr>"

definition example_item :: "string \<Rightarrow> fitbit_auth_data option \<Rightarrow> user_auth_data" where
  "example_item u f = \<lparr> uad_id = None, user_id = Some u, fitbit = f \<rparr>"

definition example_payload :: "string \<Rightarrow> token_payload" where
  "example_payload sc = \<lparr> sub = Some ''p1'', scopes = Some sc, exp = Some 3600 \<rparr>"

text \<open>Collaborators without a world: introspection answers \<open>payload\<close>, the directory
  answers \<open>exists\<close>, the store holds \<open>saved\<close>, every other call succeeds.\<close>

definition example_ports ::
  "token_payload \<Rightarrow> exception + bool \<Rightarrow> user_auth_data option \<Rightarrow> unit ports" where
  "example_ports payload exists saved =
     \<lparr> validate = (\<lambda>item. None),
       validate_object_id = (\<lambda>userId. None),
       getTokenPayload = (\<lambda>t w. (Inr payload, w)),
       subscribeUserEvent = (\<lambda>f r l w. (Inr (), w)),
       revokeToken = (\<lambda>t w. (Inr (), w)),
       repo_syncFitbitUserData = (\<lambda>f t n u w. (Inr (DataSync ''synced''), w)),
       publishLastSync = (\<lambda>u t w. (Inr (), w)),
       checkUserExists = (\<lambda>u w. (exists, w)),
       findOne = (\<lambda>q w. (Inr saved, w)),
       update = (\<lambda>r w. (Inr r, w)),
       create = (\<lambda>r w. (Inr (r\<lparr>uad_id := Some ''id-1''\<rparr>), w)) \<rparr>"

text \<open>The same collaborators, with every subscription call rejected with \<open>e\<close>.\<close>

definition example_ports_unsubscribed :: "token_payload \<Rightarrow> exception \<Rightarrow> unit ports" where
  "example_ports_unsubscribed payload e =
     (example_ports payload (Inr True) None)
       \<lparr> subscribeUserEvent := (\<lambda>f r l w. (Inl e, w)) \<rparr>"

text \<open>The provider sub-structure \<^verbatim>\<open>add\<close> hands on after lines 29 and 30: the payload
  merged, the status set.\<close>

definition linked :: "token_payload \<Rightarrow> fitbit_auth_data \<Rightarrow> fitbit_auth_data" where
  "linked p f = (merge_payload p f)\<lparr>status := Some ''valid_token''\<rparr>"

section \<open>Unfolding the service\<close>

lemmas service_defs = add_def add_try_def manageFitbitAuthData_def subscribeFitbitEvents_def
  subscribe_def await_def resolve_def reject_def invoke_def fire_def merge_payload_def
  truthy_string_def truthy_number_def array_includes_def template_def Let_def
  outcome_def calls_def

lemmas example_defs = example_ports_def example_item_def example_fitbit_def example_payload_def

lemmas store_defs = store_ports_def store_findOne_def store_create_def store_update_def
  fresh_id_def id_length_def

lemma manage_resolves:
  assumes "fitbit data = Some f" and "getTokenPayload P (access_token f) w = (Inr p, w')"
  shows "manageFitbitAuthData P data (tr, w) =
           (Inr (data\<lparr>fitbit := Some (merge_payload p f)\<rparr>),
            (tr @ [GetTokenPayload (access_token f)], w'))"
  using assms by (simp add: manageFitbitAuthData_def await_def invoke_def resolve_def)

lemma subscribe_rejects_scope:
  assumes "fitbit data = Some f" and "scope f = Some sc"
    and "\<not> array_includes (split (CHR '' '') sc) ''rwei''
         \<or> \<not> array_includes (split (CHR '' '') sc) ''ract''
         \<or> \<not> array_includes (split (CHR '' '') sc) ''rsle''"
  shows "subscribeFitbitEvents P data s = (Inl scope_rejection, s)"
  using assms by (auto simp add: subscribeFitbitEvents_def reject_def Let_def)

lemma scope_rejection_no_rpc: "indexOf (message scope_rejection) ''rpc'' = - 1"
  by (simp add: scope_rejection_def)

lemma add_resolves_iff: "add P item s = (Inr r, s') \<longleftrightarrow> add_try P item s = (Inr r, s')"
  by (auto simp add: add_def split: prod.splits sum.splits if_splits)

subsection \<open>Which calls a run can add to the record\<close>

lemma await_calls:
  assumes "\<And>tr w. filter p (calls (m (tr, w))) = filter p tr"
    and "\<And>x tr w. filter p (calls (k x (tr, w))) = filter p tr"
  shows "filter p (calls (await m k (tr, w))) = filter p tr"
proof -
  obtain r tr' w' where m: "m (tr, w) = (r, (tr', w'))"
    by (metis prod.collapse)
  then have "filter p tr' = filter p tr"
    using assms(1) [of tr w] by (simp add: calls_def)
  with m assms(2) show ?thesis
    by (cases r) (simp_all add: await_def calls_def)
qed

lemma invoke_calls:
  "filter p (calls (invoke c f (tr, w))) = filter p tr @ (if p c then [c] else [])"
  by (simp add: invoke_def calls_def split: prod.splits)

lemma resolve_calls: "filter p (calls (resolve x (tr, w))) = filter p tr"
  by (simp add: resolve_def calls_def)

lemma reject_calls: "filter p (calls (reject e (tr, w))) = filter p tr"
  by (simp add: reject_def calls_def)

lemma manage_calls:
  assumes "\<And>t. \<not> p (GetTokenPayload t)"
  shows "filter p (calls (manageFitbitAuthData P data (tr, w))) = filter p tr"
  unfolding manageFitbitAuthData_def
  by (cases "fitbit data")
     (simp_all add: reject_calls await_calls invoke_calls resolve_calls assms)

lemma subscribe_calls:
  assumes "\<And>f r l. \<not> p (SubscribeUserEvent f r l)"
  shows "filter p (calls (subscribeFitbitEvents P data (tr, w))) = filter p tr"
  unfolding subscribeFitbitEvents_def subscribe_def Let_def
  by (simp add: reject_calls await_calls invoke_calls resolve_calls assms split: option.splits)

text \<open>\<^verbatim>\<open>add\<close> starts no sync, publishes no last sync and revokes no token.\<close>

lemma add_try_calls:
  assumes "\<And>c. p c \<Longrightarrow> is_sync c \<or> is_publish c \<or> is_revoke c"
  shows "filter p (calls (add_try P item (tr, w))) = filter p tr"
proof -
  have n: "\<not> p (GetTokenPayload t)" "\<not> p (SubscribeUserEvent f r l)"
    "\<not> p (CheckUserExists u)" "\<not> p (FindOne q)" "\<not> p (Update x)" "\<not> p (Create x)"
    for t f r l u q x
    using assms by fastforce+
  show ?thesis
    unfolding add_try_def Let_def
    by (simp add: reject_calls await_calls invoke_calls resolve_calls manage_calls
        subscribe_calls n split: option.splits)
qed

lemma add_calls:
  assumes "\<And>c. p c \<Longrightarrow> is_sync c \<or> is_publish c \<or> is_revoke c"
  shows "filter p (calls (add P item (tr, w))) = filter p tr"
proof -
  have "calls (add P item (tr, w)) = calls (add_try P item (tr, w))"
    by (simp add: add_def calls_def split: prod.splits sum.splits)
  then show ?thesis using add_try_calls [OF assms] by simp
qed

section \<open>Linking a credential: the scope check\<close>

text \<open>When the record passes validation and introspection answers, a granted scope that
  lacks any one of the three tokens ends \<^verbatim>\<open>add\<close> in the scope rejection right after the
  introspection.\<close>

lemma add_rejects_partial_scope:
  assumes "validate P item = None"
    and "fitbit item = Some f"
    and "getTokenPayload P (access_token f) w = (Inr payload, w')"
    and "scope (merge_payload payload f) = Some sc"
    and "\<not> array_includes (split (CHR '' '') sc) ''rwei''
         \<or> \<not> array_includes (split (CHR '' '') sc) ''ract''
         \<or> \<not> array_includes (split (CHR '' '') sc) ''rsle''"
  shows "add P item (tr, w) = (Inl scope_rejection, (tr @ [GetTokenPayload (access_token f)], w'))"
proof -
  let ?f = "(merge_payload payload f)\<lparr>status := Some ''valid_token''\<rparr>"
  let ?s = "(tr @ [GetTokenPayload (access_token f)], w')"
  have m: "manageFitbitAuthData P item (tr, w) =
      (Inr (item\<lparr>fitbit := Some (merge_payload payload f)\<rparr>), ?s)"
    by (rule manage_resolves [OF assms(2,3)])
  have s: "subscribeFitbitEvents P (item\<lparr>fitbit := Some ?f\<rparr>) ?s = (Inl scope_rejection, ?s)"
    by (rule subscribe_rejects_scope [where f = ?f and sc = sc]) (use assms in simp_all)
  have t: "add_try P item (tr, w) = (Inl scope_rejection, ?s)"
    using assms(1) m s by (simp add: add_try_def await_def Let_def)
  show ?thesis
    using t scope_rejection_no_rpc by (simp add: add_def)
qed

text \<open>
  Claim C1. A record that passes validation and whose granted scope holds exactly one
  recognised token should lead to one subscription call and a stored record. The check of
  \<^verbatim>\<open>subscribeFitbitEvents\<close> rejects unless all three tokens are present: with the
  granted scope \<^verbatim>\<open>rwei\<close> the operation fails with the scope rejection and the only
  call made is the introspection, so no subscription call is issued.
\<close>

theorem single_scope_is_rejected:
  "outcome (add (example_ports (example_payload ''rwei'') (Inr True) None)
              (example_item ''u1'' (Some (example_fitbit ''tok-abc'' ''rwei'' None))) ([], ()))
     = Inl scope_rejection \<and>
   calls (add (example_ports (example_payload ''rwei'') (Inr True) None)
              (example_item ''u1'' (Some (example_fitbit ''tok-abc'' ''rwei'' None))) ([], ()))
     = [GetTokenPayload (Some ''tok-abc'')]"
  by (simp add: service_defs example_defs scope_rejection_def)

text \<open>
  Claim C2. When the record passes validation, introspection answers, and the granted
  scope (the scope of the record after the payload is merged) holds none of the tokens
  \<^verbatim>\<open>rwei\<close>, \<^verbatim>\<open>ract\<close>, \<^verbatim>\<open>rsle\<close>, then \<^verbatim>\<open>add\<close> fails with the scope rejection, the only
  call it makes is the introspection: no subscription call, and neither \<^verbatim>\<open>create\<close>
  nor \<^verbatim>\<open>update\<close>.
\<close>

theorem link_without_recognized_scope:
  assumes "validate P item = None"
    and "fitbit item = Some f"
    and "getTokenPayload P (access_token f) w = (Inr payload, w')"
    and "scope (merge_payload payload f) = Some sc"
    and "\<not> array_includes (split (CHR '' '') sc) ''rwei''"
    and "\<not> array_includes (split (CHR '' '') sc) ''ract''"
    and "\<not> array_includes (split (CHR '' '') sc) ''rsle''"
  shows "outcome (add P item ([], w)) = Inl scope_rejection \<and>
         calls (add P item ([], w)) = [GetTokenPayload (access_token f)] \<and>
         filter is_subscribe (calls (add P item ([], w))) = [] \<and>
         filter is_write (calls (add P item ([], w))) = []"
proof -
  have "add P item ([], w) = (Inl scope_rejection, ([] @ [GetTokenPayload (access_token f)], w'))"
    by (rule add_rejects_partial_scope [OF assms(1-4)]) (simp add: assms(5))
  then show ?thesis by (simp add: outcome_def calls_def)
qed

text \<open>The submitted record claims all three tokens; the token itself grants none.\<close>

theorem link_without_recognized_scope_witness:
  "outcome (add (example_ports (example_payload ''profile heartrate'') (Inr True) None)
              (example_item ''u1'' (Some (example_fitbit ''tok-abc'' ''rwei ract rsle'' None)))
              ([], ()))
     = Inl scope_rejection \<and>
   calls (add (example_ports (example_payload ''profile heartrate'') (Inr True) None)
              (example_item ''u1'' (Some (example_fitbit ''tok-abc'' ''rwei ract rsle'' None)))
              ([], ()))
     = [GetTokenPayload (Some ''tok-abc'')]"
  using link_without_recognized_scope
    [of "example_ports (example_payload ''profile heartrate'') (Inr True) None"
        "example_item ''u1'' (Some (example_fitbit ''tok-abc'' ''rwei ract rsle'' None))"
        "example_fitbit ''tok-abc'' ''rwei ract rsle'' None" "()"
        "example_payload ''profile heartrate''" "()" "''profile heartrate''"]
  by (simp add: example_defs merge_payload_def truthy_string_def truthy_number_def
      array_includes_def)

section \<open>Linking a credential: the catch clause\<close>

text \<open>A failure of the subscription step is the failure of the \<^verbatim>\<open>try\<close> block.\<close>

lemma subscription_failure_reaches_catch:
  assumes "validate P item = None"
    and "manageFitbitAuthData P item s = (Inr merged, s1)"
    and "fitbit merged = Some f"
    and "subscribeFitbitEvents P (merged\<lparr>fitbit := Some (f\<lparr>status := Some ''valid_token''\<rparr>)\<rparr>) s1
           = (Inl e, s2)"
  shows "add_try P item s = (Inl e, s2)"
  using assms by (simp add: add_try_def await_def Let_def)

text \<open>
  Claim C3, as the code has it. Step by step through \<^verbatim>\<open>add\<close>, from what the
  collaborators answer: a failure of the validation, of the introspection, of any of the
  three subscription calls, of the directory lookup, of the store's \<^verbatim>\<open>findOne\<close>,
  \<^verbatim>\<open>create\<close> or \<^verbatim>\<open>update\<close> ends the calls there and is rejected as the event bus
  exception when its message contains \<^verbatim>\<open>rpc\<close>, and unchanged when it does not. The
  scope rejection is rejected unchanged. The rejection of a user the directory does not
  know is rejected unchanged when its message, which ends in the user id, does not
  contain \<^verbatim>\<open>rpc\<close>.
\<close>

theorem add_reclassifies_by_message:
  "(validate P item = Some e \<longrightarrow> add P item ([], w) = (Inl (surfaced e), ([], w))) \<and>
   (validate P item = None \<and> fitbit item = Some f \<longrightarrow>
     (getTokenPayload P (access_token f) w = (Inl e, w1) \<longrightarrow>
        add P item ([], w) = (Inl (surfaced e), ([GetTokenPayload (access_token f)], w1))) \<and>
     (getTokenPayload P (access_token f) w = (Inr payload, w1) \<and>
      scope (linked payload f) = Some sc \<longrightarrow>
       (\<not> array_includes (split (CHR '' '') sc) ''rwei''
          \<or> \<not> array_includes (split (CHR '' '') sc) ''ract''
          \<or> \<not> array_includes (split (CHR '' '') sc) ''rsle'' \<longrightarrow>
          add P item ([], w) =
            (Inl scope_rejection, ([GetTokenPayload (access_token f)], w1))) \<and>
       (array_includes (split (CHR '' '') sc) ''rwei''
          \<and> array_includes (split (CHR '' '') sc) ''ract''
          \<and> array_includes (split (CHR '' '') sc) ''rsle'' \<longrightarrow>
         (subscribeUserEvent P (linked payload f) ''body'' ''BODY'' w1 = (Inl e, w2) \<longrightarrow>
            add P item ([], w) =
              (Inl (surfaced e),
               ([GetTokenPayload (access_token f),
                 SubscribeUserEvent (linked payload f) ''body'' ''BODY''], w2))) \<and>
         (subscribeUserEvent P (linked payload f) ''body'' ''BODY'' w1 = (Inr (), w2) \<longrightarrow>
           (subscribeUserEvent P (linked payload f) ''activities'' ''ACTIVITIES'' w2 = (Inl e, w3) \<longrightarrow>
              add P item ([], w) =
                (Inl (surfaced e),
                 ([GetTokenPayload (access_token f),
                   SubscribeUserEvent (linked payload f) ''body'' ''BODY'',
                   SubscribeUserEvent (linked payload f) ''activities'' ''ACTIVITIES''], w3))) \<and>
           (subscribeUserEvent P (linked payload f) ''activities'' ''ACTIVITIES'' w2 = (Inr (), w3) \<longrightarrow>
             (subscribeUserEvent P (linked payload f) ''sleep'' ''SLEEP'' w3 = (Inl e, w4) \<longrightarrow>
                add P item ([], w) =
                  (Inl (surfaced e),
                   ([GetTokenPayload (access_token f),
                     SubscribeUserEvent (linked payload f) ''body'' ''BODY'',
                     SubscribeUserEvent (linked payload f) ''activities'' ''ACTIVITIES'',
                     SubscribeUserEvent (linked payload f) ''sleep'' ''SLEEP''], w4))) \<and>
             (subscribeUserEvent P (linked payload f) ''sleep'' ''SLEEP'' w3 = (Inr (), w4) \<longrightarrow>
               (checkUserExists P (user_id item) w4 = (Inl e, w5) \<longrightarrow>
                  add P item ([], w) =
                    (Inl (surfaced e),
                     ([GetTokenPayload (access_token f),
                       SubscribeUserEvent (linked payload f) ''body'' ''BODY'',
                       SubscribeUserEvent (linked payload f) ''activities'' ''ACTIVITIES'',
                       SubscribeUserEvent (linked payload f) ''sleep'' ''SLEEP'',
                       CheckUserExists (user_id item)], w5))) \<and>
               (checkUserExists P (user_id item) w4 = (Inr False, w5) \<and>
                indexOf (message (user_not_registered (user_id item))) ''rpc'' = - 1 \<longrightarrow>
                  add P item ([], w) =
                    (Inl (user_not_registered (user_id item)),
                     ([GetTokenPayload (access_token f),
                       SubscribeUserEvent (linked payload f) ''body'' ''BODY'',
                       SubscribeUserEvent (linked payload f) ''activities'' ''ACTIVITIES'',
                       SubscribeUserEvent (linked payload f) ''sleep'' ''SLEEP'',
                       CheckUserExists (user_id item)], w5))) \<and>
               (checkUserExists P (user_id item) w4 = (Inr True, w5) \<longrightarrow>
                 (findOne P (Filter_user_id (user_id item)) w5 = (Inl e, w6) \<longrightarrow>
                    add P item ([], w) =
                      (Inl (surfaced e),
                       ([GetTokenPayload (access_token f),
                         SubscribeUserEvent (linked payload f) ''body'' ''BODY'',
                         SubscribeUserEvent (linked payload f) ''activities'' ''ACTIVITIES'',
                         SubscribeUserEvent (linked payload f) ''sleep'' ''SLEEP'',
                         CheckUserExists (user_id item),
                         FindOne (Filter_user_id (user_id item))], w6))) \<and>
                 (findOne P (Filter_user_id (user_id item)) w5 = (Inr None, w6) \<and>
                  create P (item\<lparr>fitbit := Some (linked payload f)\<rparr>) w6 = (Inl e, w7) \<longrightarrow>
                    add P item ([], w) =
                      (Inl (surfaced e),
                       ([GetTokenPayload (access_token f),
                         SubscribeUserEvent (linked payload f) ''body'' ''BODY'',
                         SubscribeUserEvent (linked payload f) ''activities'' ''ACTIVITIES'',
                         SubscribeUserEvent (linked payload f) ''sleep'' ''SLEEP'',
                         CheckUserExists (user_id item),
                         FindOne (Filter_user_id (user_id item)),
                         Create (item\<lparr>fitbit := Some (linked payload f)\<rparr>)], w7))) \<and>
                 (findOne P (Filter_user_id (user_id item)) w5 = (Inr (Some saved), w6) \<and>
                  update P (item\<lparr>fitbit := Some (linked payload f), uad_id := uad_id saved\<rparr>) w6
                    = (Inl e, w7) \<longrightarrow>
                    add P item ([], w) =
                      (Inl (surfaced e),
                       ([GetTokenPayload (access_token f),
                         SubscribeUserEvent (linked payload f) ''body'' ''BODY'',
                         SubscribeUserEvent (linked payload f) ''activities'' ''ACTIVITIES'',
                         SubscribeUserEvent (linked payload f) ''sleep'' ''SLEEP'',
                         CheckUserExists (user_id item),
                         FindOne (Filter_user_id (user_id item)),
                         Update (item\<lparr>fitbit := Some (linked payload f),
                                      uad_id := uad_id saved\<rparr>)], w7))))))))))"
  using scope_rejection_no_rpc
  by (simp add: add_def add_try_def manageFitbitAuthData_def subscribeFitbitEvents_def
      subscribe_def await_def resolve_def reject_def invoke_def Let_def linked_def)

text \<open>A subscription call rejected with \<^verbatim>\<open>rpc\<close> in its message, one rejected without,
  a directory lookup rejected with \<^verbatim>\<open>rpc\<close> in its message, and an unknown user
  \<^verbatim>\<open>u1\<close>.\<close>

theorem add_reclassifies_by_message_witness:
  "add (example_ports_unsubscribed (example_payload ''rwei ract rsle'')
          (Exception ''rpc channel closed''))
       (example_item ''u1'' (Some (example_fitbit ''tok-abc'' ''rwei ract rsle'' None))) ([], ())
     = (Inl eventbus_unavailable,
        ([GetTokenPayload (Some ''tok-abc''),
          SubscribeUserEvent
            (linked (example_payload ''rwei ract rsle'')
               (example_fitbit ''tok-abc'' ''rwei ract rsle'' None)) ''body'' ''BODY''], ())) \<and>
   add (example_ports_unsubscribed (example_payload ''rwei ract rsle'')
          (Exception ''connection refused''))
       (example_item ''u1'' (Some (example_fitbit ''tok-abc'' ''rwei ract rsle'' None))) ([], ())
     = (Inl (Exception ''connection refused''),
        ([GetTokenPayload (Some ''tok-abc''),
          SubscribeUserEvent
            (linked (example_payload ''rwei ract rsle'')
               (example_fitbit ''tok-abc'' ''rwei ract rsle'' None)) ''body'' ''BODY''], ())) \<and>
   outcome (add (example_ports (example_payload ''rwei ract rsle'')
                   (Inl (Exception ''rpc timeout'')) None)
       (example_item ''u1'' (Some (example_fitbit ''tok-abc'' ''rwei ract rsle'' None))) ([], ()))
     = Inl eventbus_unavailable \<and>
   outcome (add (example_ports (example_payload ''rwei ract rsle'') (Inr False) None)
       (example_item ''u1'' (Some (example_fitbit ''tok-abc'' ''rwei ract rsle'' None))) ([], ()))
     = Inl (user_not_registered (Some ''u1''))"
proof -
  let ?pl = "example_payload ''rwei ract rsle''"
  let ?fb = "example_fitbit ''tok-abc'' ''rwei ract rsle'' None"
  let ?item = "example_item ''u1'' (Some ?fb)"
  note inst = add_reclassifies_by_message
    [where item = ?item and f = ?fb and payload = ?pl and sc = "''rwei ract rsle''"
       and w = "()" and ?w1.0 = "()" and ?w2.0 = "()" and ?w3.0 = "()" and ?w4.0 = "()"
       and ?w5.0 = "()"]
  have closed: "add (example_ports_unsubscribed ?pl (Exception m)) ?item ([], ())
      = (Inl (surfaced (Exception m)),
         ([GetTokenPayload (Some ''tok-abc''),
           SubscribeUserEvent (linked ?pl ?fb) ''body'' ''BODY''], ()))" for m
    using inst [where P = "example_ports_unsubscribed ?pl (Exception m)" and e = "Exception m"]
    by (simp add: example_defs example_ports_unsubscribed_def linked_def merge_payload_def
        truthy_string_def truthy_number_def array_includes_def Let_def)
  have lookup: "add (example_ports ?pl (Inl (Exception ''rpc timeout'')) None) ?item ([], ())
      = (Inl (surfaced (Exception ''rpc timeout'')),
         ([GetTokenPayload (Some ''tok-abc''),
           SubscribeUserEvent (linked ?pl ?fb) ''body'' ''BODY'',
           SubscribeUserEvent (linked ?pl ?fb) ''activities'' ''ACTIVITIES'',
           SubscribeUserEvent (linked ?pl ?fb) ''sleep'' ''SLEEP'',
           CheckUserExists (Some ''u1'')], ()))"
    using inst [where P = "example_ports ?pl (Inl (Exception ''rpc timeout'')) None"
        and e = "Exception ''rpc timeout''"]
    by (simp add: example_defs linked_def merge_payload_def
        truthy_string_def truthy_number_def array_includes_def Let_def)
  have unknown: "add (example_ports ?pl (Inr False) None) ?item ([], ())
      = (Inl (user_not_registered (Some ''u1'')),
         ([GetTokenPayload (Some ''tok-abc''),
           SubscribeUserEvent (linked ?pl ?fb) ''body'' ''BODY'',
           SubscribeUserEvent (linked ?pl ?fb) ''activities'' ''ACTIVITIES'',
           SubscribeUserEvent (linked ?pl ?fb) ''sleep'' ''SLEEP'',
           CheckUserExists (Some ''u1'')], ()))"
    using inst [where P = "example_ports ?pl (Inr False) None"]
    by (simp add: example_defs linked_def merge_payload_def user_not_registered_def template_def
        truthy_string_def truthy_number_def array_includes_def Let_def)
  show ?thesis
    using closed [of "''rpc channel closed''"] closed [of "''connection refused''"] lookup unknown
    by (simp add: outcome_def)
qed

text \<open>
  Claim C3 as stated fails twice. A failure of the directory lookup, raised after all
  three subscription calls have succeeded, is replaced by the event bus exception; and
  the rejection of an unregistered user is replaced as well when the user id contains
  \<^verbatim>\<open>rpc\<close>.
\<close>

theorem reclassification_counterexample:
  "outcome (add (example_ports (example_payload ''rwei ract rsle'')
                   (Inl (Exception ''rpc timeout'')) None)
              (example_item ''u1'' (Some (example_fitbit ''tok-abc'' ''rwei ract rsle'' None)))
              ([], ()))
     = Inl eventbus_unavailable \<and>
   length (filter is_subscribe
     (calls (add (example_ports (example_payload ''rwei ract rsle'')
                    (Inl (Exception ''rpc timeout'')) None)
              (example_item ''u1'' (Some (example_fitbit ''tok-abc'' ''rwei ract rsle'' None)))
              ([], ())))) = 3 \<and>
   last (calls (add (example_ports (example_payload ''rwei ract rsle'')
                       (Inl (Exception ''rpc timeout'')) None)
              (example_item ''u1'' (Some (example_fitbit ''tok-abc'' ''rwei ract rsle'' None)))
              ([], ())))
     = CheckUserExists (Some ''u1'') \<and>
   outcome (add_try (example_ports (example_payload ''rwei ract rsle'') (Inr False) None)
              (example_item ''u-rpc-7''
                 (Some (example_fitbit ''tok-abc'' ''rwei ract rsle'' None))) ([], ()))
     = Inl (user_not_registered (Some ''u-rpc-7'')) \<and>
   outcome (add (example_ports (example_payload ''rwei ract rsle'') (Inr False) None)
              (example_item ''u-rpc-7''
                 (Some (example_fitbit ''tok-abc'' ''rwei ract rsle'' None))) ([], ()))
     = Inl eventbus_unavailable"
  by (simp add: service_defs example_defs user_not_registered_def)

section \<open>Linking a credential: the user directory\<close>

text \<open>When validation, introspection and the subscriptions pass and the directory does
  not know the user, the \<^verbatim>\<open>try\<close> block ends in the rejection of line 33, right after
  the directory lookup.\<close>

lemma directory_rejection:
  assumes "validate P item = None"
    and "manageFitbitAuthData P item s = (Inr merged, s1)"
    and "fitbit merged = Some f"
    and "subscribeFitbitEvents P (merged\<lparr>fitbit := Some (f\<lparr>status := Some ''valid_token''\<rparr>)\<rparr>) s1
           = (Inr (), (tr2, w2))"
    and "checkUserExists P (user_id merged) w2 = (Inr False, w3)"
  shows "add_try P item s =
           (Inl (user_not_registered (user_id merged)),
            (tr2 @ [CheckUserExists (user_id merged)], w3))"
  using assms by (simp add: add_try_def await_def invoke_def reject_def Let_def)

text \<open>The \<^verbatim>\<open>catch\<close> clause passes that rejection on when its message, which ends in the
  user id, does not contain \<^verbatim>\<open>rpc\<close>.\<close>

lemma directory_rejection_surfaces:
  assumes "validate P item = None"
    and "manageFitbitAuthData P item s = (Inr merged, s1)"
    and "fitbit merged = Some f"
    and "subscribeFitbitEvents P (merged\<lparr>fitbit := Some (f\<lparr>status := Some ''valid_token''\<rparr>)\<rparr>) s1
           = (Inr (), (tr2, w2))"
    and "checkUserExists P (user_id merged) w2 = (Inr False, w3)"
    and "indexOf (message (user_not_registered (user_id merged))) ''rpc'' = - 1"
  shows "add P item s =
           (Inl (user_not_registered (user_id merged)),
            (tr2 @ [CheckUserExists (user_id merged)], w3))"
  using directory_rejection [OF assms(1-5)] assms(6) by (simp add: add_def)

text \<open>
  Claim C6. A record whose user the directory does not know should be rejected with the
  validation exception of line 33, nothing being written. For the user id
  \<^verbatim>\<open>rpc-user-1\<close> the \<^verbatim>\<open>try\<close> block does end in that validation exception, but its
  message contains \<^verbatim>\<open>rpc\<close> and the \<^verbatim>\<open>catch\<close> clause turns it into the event bus
  exception. Nothing is written.
\<close>

theorem unregistered_user_reported_as_bus_failure:
  "outcome (add_try (example_ports (example_payload ''rwei ract rsle'') (Inr False) None)
              (example_item ''rpc-user-1''
                 (Some (example_fitbit ''tok-abc'' ''rwei ract rsle'' None))) ([], ()))
     = Inl (user_not_registered (Some ''rpc-user-1'')) \<and>
   outcome (add (example_ports (example_payload ''rwei ract rsle'') (Inr False) None)
              (example_item ''rpc-user-1''
                 (Some (example_fitbit ''tok-abc'' ''rwei ract rsle'' None))) ([], ()))
     = Inl eventbus_unavailable \<and>
   filter is_write
     (calls (add (example_ports (example_payload ''rwei ract rsle'') (Inr False) None)
              (example_item ''rpc-user-1''
                 (Some (example_fitbit ''tok-abc'' ''rwei ract rsle'' None))) ([], ())))
     = []"
  by (simp add: service_defs example_defs user_not_registered_def)

section \<open>Linking and syncing\<close>

text \<open>
  Claim C4, as the code has it. \<^verbatim>\<open>addFitbitAuthData\<close> runs \<^verbatim>\<open>add\<close> first and fails as
  \<^verbatim>\<open>add\<close> fails. When \<^verbatim>\<open>add\<close> resolves with a record that has its provider
  sub-structure, the operation resolves with that record, whatever the calls started
  afterwards answer, and over the whole run:
  for every \<^verbatim>\<open>initSync\<close> other than the string \<^verbatim>\<open>false\<close> (the empty string too) one
  sync with three attempts is started for the record's credential and user and no last
  sync is published;
  for \<^verbatim>\<open>initSync = "false"\<close> with a truthy last sync on the record (present and
  not empty), that last sync is published once and no sync is started;
  for \<^verbatim>\<open>initSync = "false"\<close> with no last sync or an empty one neither happens.
\<close>

theorem addFitbitAuthData_sync_choice:
  "(\<forall>e s'. add P data ([], w) = (Inl e, s') \<longrightarrow>
      addFitbitAuthData P data initSync ([], w) = (Inl e, s')) \<and>
   (\<forall>result tr w' f.
      add P data ([], w) = (Inr result, (tr, w')) \<and> fitbit result = Some f \<longrightarrow>
        outcome (addFitbitAuthData P data initSync ([], w)) = Inr result \<and>
        (initSync \<noteq> ''false'' \<longrightarrow>
           calls (addFitbitAuthData P data initSync ([], w)) =
             tr @ [SyncFitbitUserData f (last_sync f) 3 (user_id result)] \<and>
           filter is_sync (calls (addFitbitAuthData P data initSync ([], w))) =
             [SyncFitbitUserData f (last_sync f) 3 (user_id result)] \<and>
           filter is_publish (calls (addFitbitAuthData P data initSync ([], w))) = []) \<and>
        (initSync = ''false'' \<and> truthy_timestamp (last_sync f) \<longrightarrow>
           calls (addFitbitAuthData P data initSync ([], w)) =
             tr @ [PublishLastSync (user_id result) (last_sync f)] \<and>
           filter is_publish (calls (addFitbitAuthData P data initSync ([], w))) =
             [PublishLastSync (user_id result) (last_sync f)] \<and>
           filter is_sync (calls (addFitbitAuthData P data initSync ([], w))) = []) \<and>
        (initSync = ''false'' \<and> \<not> truthy_timestamp (last_sync f) \<longrightarrow>
           calls (addFitbitAuthData P data initSync ([], w)) = tr \<and>
           filter is_publish (calls (addFitbitAuthData P data initSync ([], w))) = [] \<and>
           filter is_sync (calls (addFitbitAuthData P data initSync ([], w))) = []))"
proof -
  have fails: "addFitbitAuthData P data initSync ([], w) = (Inl e, s')"
    if "add P data ([], w) = (Inl e, s')" for e s'
    using that by (simp add: addFitbitAuthData_def await_def)
  have resolves:
    "outcome (addFitbitAuthData P data initSync ([], w)) = Inr result \<and>
     calls (addFitbitAuthData P data initSync ([], w)) =
       tr @ (if initSync \<noteq> ''false'' then [SyncFitbitUserData f (last_sync f) 3 (user_id result)]
             else if truthy_timestamp (last_sync f)
             then [PublishLastSync (user_id result) (last_sync f)]
             else [])"
    if "add P data ([], w) = (Inr result, (tr, w'))" and "fitbit result = Some f"
    for result tr w' f
    using that
    by (simp add: addFitbitAuthData_def await_def fire_def invoke_def resolve_def
        outcome_def calls_def split: prod.splits)
  have quiet: "filter is_sync tr = [] \<and> filter is_publish tr = []"
    if "add P data ([], w) = (Inr result, (tr, w'))" for result tr w'
  proof -
    have "filter is_sync (calls (add P data ([], w))) = filter is_sync []"
      by (rule add_calls) simp
    moreover have "filter is_publish (calls (add P data ([], w))) = filter is_publish []"
      by (rule add_calls) simp
    ultimately show ?thesis using that by (simp add: calls_def)
  qed
  have choice:
    "outcome (addFitbitAuthData P data initSync ([], w)) = Inr result \<and>
     (initSync \<noteq> ''false'' \<longrightarrow>
        calls (addFitbitAuthData P data initSync ([], w)) =
          tr @ [SyncFitbitUserData f (last_sync f) 3 (user_id result)] \<and>
        filter is_sync (calls (addFitbitAuthData P data initSync ([], w))) =
          [SyncFitbitUserData f (last_sync f) 3 (user_id result)] \<and>
        filter is_publish (calls (addFitbitAuthData P data initSync ([], w))) = []) \<and>
     (initSync = ''false'' \<and> truthy_timestamp (last_sync f) \<longrightarrow>
        calls (addFitbitAuthData P data initSync ([], w)) =
          tr @ [PublishLastSync (user_id result) (last_sync f)] \<and>
        filter is_publish (calls (addFitbitAuthData P data initSync ([], w))) =
          [PublishLastSync (user_id result) (last_sync f)] \<and>
        filter is_sync (calls (addFitbitAuthData P data initSync ([], w))) = []) \<and>
     (initSync = ''false'' \<and> \<not> truthy_timestamp (last_sync f) \<longrightarrow>
        calls (addFitbitAuthData P data initSync ([], w)) = tr \<and>
        filter is_publish (calls (addFitbitAuthData P data initSync ([], w))) = [] \<and>
        filter is_sync (calls (addFitbitAuthData P data initSync ([], w))) = [])"
    if a: "add P data ([], w) = (Inr result, (tr, w'))" and f: "fitbit result = Some f"
    for result tr w' f
    using resolves [OF a f] quiet [OF a] by (cases "initSync = ''false''") auto
  show ?thesis
    using fails choice by blast
qed

text \<open>Opting out with a last sync on the record publishes it; asking for the sync starts
  it with three attempts.\<close>

theorem addFitbitAuthData_sync_choice_witness:
  "filter is_publish (calls (addFitbitAuthData
       (example_ports (example_payload ''rwei ract rsle'') (Inr True) None)
       (example_item ''u1'' (Some (example_fitbit ''tok-abc'' ''rwei ract rsle''
          (Some (Timestamp ''2020-02-05T10:00:00Z''))))) ''false'' ([], ())))
     = [PublishLastSync (Some ''u1'') (Some (Timestamp ''2020-02-05T10:00:00Z''))] \<and>
   filter is_sync (calls (addFitbitAuthData
       (example_ports (example_payload ''rwei ract rsle'') (Inr True) None)
       (example_item ''u1'' (Some (example_fitbit ''tok-abc'' ''rwei ract rsle''
          (Some (Timestamp ''2020-02-05T10:00:00Z''))))) ''false'' ([], ())))
     = [] \<and>
   filter is_sync (calls (addFitbitAuthData
       (example_ports (example_payload ''rwei ract rsle'') (Inr True) None)
       (example_item ''u1'' (Some (example_fitbit ''tok-abc'' ''rwei ract rsle''
          (Some (Timestamp ''2020-02-05T10:00:00Z''))))) ''true'' ([], ())))
     = [SyncFitbitUserData
          ((linked (example_payload ''rwei ract rsle'')
             (example_fitbit ''tok-abc'' ''rwei ract rsle''
                (Some (Timestamp ''2020-02-05T10:00:00Z'')))))
          (Some (Timestamp ''2020-02-05T10:00:00Z'')) 3 (Some ''u1'')]"
proof -
  let ?P = "example_ports (example_payload ''rwei ract rsle'') (Inr True) None"
  let ?item = "example_item ''u1'' (Some (example_fitbit ''tok-abc'' ''rwei ract rsle''
          (Some (Timestamp ''2020-02-05T10:00:00Z''))))"
  let ?f = "linked (example_payload ''rwei ract rsle'')
             (example_fitbit ''tok-abc'' ''rwei ract rsle''
                (Some (Timestamp ''2020-02-05T10:00:00Z'')))"
  let ?r = "\<lparr> uad_id = Some ''id-1'', user_id = Some ''u1'', fitbit = Some ?f \<rparr>"
  have "outcome (add ?P ?item ([], ())) = Inr ?r"
    by (simp add: service_defs example_defs linked_def)
  then have a: "add ?P ?item ([], ()) = (Inr ?r, (calls (add ?P ?item ([], ())), ()))"
    by (simp add: outcome_def calls_def prod_eq_iff)
  have f: "fitbit ?r = Some ?f" by simp
  have l: "last_sync ?f = Some (Timestamp ''2020-02-05T10:00:00Z'')"
    by (simp add: linked_def merge_payload_def example_defs Let_def)
  then have t: "truthy_timestamp (last_sync ?f)"
    by (simp add: truthy_timestamp_def)
  have q: "filter is_sync (calls (add ?P ?item ([], ()))) = []"
    "filter is_publish (calls (add ?P ?item ([], ()))) = []"
    using add_calls [of is_sync ?P ?item "[]" "()"] add_calls [of is_publish ?P ?item "[]" "()"]
    by simp_all
  note opted_out =
    addFitbitAuthData_sync_choice [of ?P ?item "()" "''false''", THEN conjunct2, rule_format,
      OF conjI [OF a f]]
  note asked =
    addFitbitAuthData_sync_choice [of ?P ?item "()" "''true''", THEN conjunct2, rule_format,
      OF conjI [OF a f]]
  show ?thesis
    using opted_out asked l t q by simp
qed

text \<open>
  Claim C4 as stated fails twice. For the empty string, a falsy \<^verbatim>\<open>initSync\<close>, with a
  last sync on the record: no last sync is published, and a sync with three attempts is
  started. For \<^verbatim>\<open>initSync = "false"\<close> with a last sync that is present and empty:
  nothing is published.
\<close>

theorem empty_initSync_counterexample:
  "filter is_publish (calls (addFitbitAuthData
       (example_ports (example_payload ''rwei ract rsle'') (Inr True) None)
       (example_item ''u1'' (Some (example_fitbit ''tok-abc'' ''rwei ract rsle''
          (Some (Timestamp ''2020-02-05T10:00:00Z''))))) [] ([], ()))) = [] \<and>
   map (\<lambda>c. case c of SyncFitbitUserData f t n u \<Rightarrow> (last_sync f, n, u) | _ \<Rightarrow> (None, 0, None))
     (filter is_sync (calls (addFitbitAuthData
       (example_ports (example_payload ''rwei ract rsle'') (Inr True) None)
       (example_item ''u1'' (Some (example_fitbit ''tok-abc'' ''rwei ract rsle''
          (Some (Timestamp ''2020-02-05T10:00:00Z''))))) [] ([], ()))))
     = [(Some (Timestamp ''2020-02-05T10:00:00Z''), 3, Some ''u1'')] \<and>
   map_sum (\<lambda>e. e) (\<lambda>r. map_option last_sync (fitbit r))
     (outcome (addFitbitAuthData
       (example_ports (example_payload ''rwei ract rsle'') (Inr True) None)
       (example_item ''u1'' (Some (example_fitbit ''tok-abc'' ''rwei ract rsle''
          (Some (Timestamp []))))) ''false'' ([], ())))
     = Inr (Some (Some (Timestamp []))) \<and>
   filter is_publish (calls (addFitbitAuthData
       (example_ports (example_payload ''rwei ract rsle'') (Inr True) None)
       (example_item ''u1'' (Some (example_fitbit ''tok-abc'' ''rwei ract rsle''
          (Some (Timestamp []))))) ''false'' ([], ()))) = []"
  by (simp add: addFitbitAuthData_def truthy_timestamp_def service_defs example_defs)

section \<open>Linking twice\<close>

text \<open>What a resolved \<^verbatim>\<open>add\<close> has done over the store: the calls, the record returned,
  the store afterwards.\<close>

lemma add_try_store_resolves:
  assumes "add_try (store_ports introspect directory) item (tr, st) = (Inr r, (tr', st'))"
  obtains f p where "fitbit item = Some f" and "introspect (access_token f) = Inr p"
    and "directory (user_id item) = Inr True"
    and "tr' = tr @ [GetTokenPayload (access_token f),
                 SubscribeUserEvent (linked p f) ''body'' ''BODY'',
                 SubscribeUserEvent (linked p f) ''activities'' ''ACTIVITIES'',
                 SubscribeUserEvent (linked p f) ''sleep'' ''SLEEP'',
                 CheckUserExists (user_id item),
                 FindOne (Filter_user_id (user_id item)),
                 (case find (\<lambda>x. user_id x = user_id item) st of
                    None \<Rightarrow> Create (item\<lparr>fitbit := Some (linked p f)\<rparr>)
                  | Some saved \<Rightarrow> Update r)]"
    and "r = item\<lparr>fitbit := Some (linked p f),
                 uad_id := (case find (\<lambda>x. user_id x = user_id item) st of
                    None \<Rightarrow> Some (fresh_id st) | Some saved \<Rightarrow> uad_id saved)\<rparr>"
    and "st' = (case find (\<lambda>x. user_id x = user_id item) st of
                    None \<Rightarrow> st @ [r]
                  | Some saved \<Rightarrow> map (\<lambda>x. if uad_id x = uad_id saved then r else x) st)"
  using assms
  by (auto simp add: add_try_def manageFitbitAuthData_def subscribeFitbitEvents_def subscribe_def
      await_def resolve_def reject_def invoke_def Let_def store_ports_def linked_def
      store_findOne_def store_create_def store_update_def
      split: option.splits sum.splits if_splits prod.splits bool.splits)

lemma filter_unique:
  "distinct (map g xs) \<Longrightarrow> y \<in> set xs \<Longrightarrow> filter (\<lambda>x. g x = g y) xs = [y]"
proof (induction xs)
  case Nil
  then show ?case by simp
next
  case (Cons x xs)
  show ?case
  proof (cases "x = y")
    case True
    with Cons.prems have "g y \<notin> g ` set xs" by simp
    then have "\<forall>z \<in> set xs. g z \<noteq> g y" by (metis imageI)
    then have "filter (\<lambda>x. g x = g y) xs = []" by (simp add: filter_empty_conv)
    with True show ?thesis by simp
  next
    case False
    with Cons.prems have y: "y \<in> set xs" by simp
    with Cons.prems have "g x \<noteq> g y" by auto
    with Cons y show ?thesis by simp
  qed
qed

lemma find_unique:
  "distinct (map g xs) \<Longrightarrow> y \<in> set xs \<Longrightarrow> find (\<lambda>x. g x = g y) xs = Some y"
proof (induction xs)
  case Nil
  then show ?case by simp
next
  case (Cons x xs)
  then show ?case by (cases "x = y") auto
qed

lemma fresh_id_new: "x \<in> set st \<Longrightarrow> uad_id x \<noteq> Some (fresh_id st)"
proof
  assume x: "x \<in> set st" and eq: "uad_id x = Some (fresh_id st)"
  have "id_length x \<le> sum_list (map id_length st)"
    using x by (simp add: member_le_sum_list)
  moreover have "id_length x = Suc (sum_list (map id_length st))"
    using eq by (simp add: id_length_def fresh_id_def)
  ultimately show False by simp
qed

lemma replace_keeps_keys:
  assumes "distinct (map uad_id st)" and "saved \<in> set st"
    and "uad_id r = uad_id saved" and "user_id r = user_id saved"
  shows "map uad_id (map (\<lambda>x. if uad_id x = uad_id saved then r else x) st) = map uad_id st"
    and "map user_id (map (\<lambda>x. if uad_id x = uad_id saved then r else x) st) = map user_id st"
proof -
  have "\<forall>x \<in> set st. uad_id x = uad_id saved \<longrightarrow> x = saved"
    using assms(1,2) by (auto simp add: distinct_map inj_on_def)
  then show
    "map uad_id (map (\<lambda>x. if uad_id x = uad_id saved then r else x) st) = map uad_id st"
    and "map user_id (map (\<lambda>x. if uad_id x = uad_id saved then r else x) st) = map user_id st"
    using assms(3,4) by auto
qed

lemma add_store_resolves:
  assumes inv: "store_inv st"
    and run: "add (store_ports introspect directory) item (tr, st) = (Inr r, (tr', st'))"
  shows "store_inv st'" and "r \<in> set st'" and "user_id r = user_id item"
    and "find (\<lambda>x. user_id x = user_id item) st = None \<Longrightarrow> length st' = Suc (length st)"
    and "find (\<lambda>x. user_id x = user_id item) st = Some saved \<Longrightarrow>
           uad_id r = uad_id saved \<and> length st' = length st \<and> last tr' = Update r"
proof -
  from run have t: "add_try (store_ports introspect directory) item (tr, st) = (Inr r, (tr', st'))"
    by (simp add: add_resolves_iff)
  from t obtain f p where
      r: "r = item\<lparr>fitbit := Some (linked p f),
                 uad_id := (case find (\<lambda>x. user_id x = user_id item) st of
                    None \<Rightarrow> Some (fresh_id st) | Some saved \<Rightarrow> uad_id saved)\<rparr>"
    and st': "st' = (case find (\<lambda>x. user_id x = user_id item) st of
                    None \<Rightarrow> st @ [r]
                  | Some saved \<Rightarrow> map (\<lambda>x. if uad_id x = uad_id saved then r else x) st)"
    and tr': "tr' = tr @ [GetTokenPayload (access_token f),
                 SubscribeUserEvent (linked p f) ''body'' ''BODY'',
                 SubscribeUserEvent (linked p f) ''activities'' ''ACTIVITIES'',
                 SubscribeUserEvent (linked p f) ''sleep'' ''SLEEP'',
                 CheckUserExists (user_id item),
                 FindOne (Filter_user_id (user_id item)),
                 (case find (\<lambda>x. user_id x = user_id item) st of
                    None \<Rightarrow> Create (item\<lparr>fitbit := Some (linked p f)\<rparr>)
                  | Some saved \<Rightarrow> Update r)]"
    by (rule add_try_store_resolves)
  from r show u: "user_id r = user_id item" by simp
  show "find (\<lambda>x. user_id x = user_id item) st = None \<Longrightarrow> length st' = Suc (length st)"
    using st' by simp
  show "find (\<lambda>x. user_id x = user_id item) st = Some saved \<Longrightarrow>
           uad_id r = uad_id saved \<and> length st' = length st \<and> last tr' = Update r"
    using st' r tr' by simp
  show "store_inv st'"
  proof (cases "find (\<lambda>x. user_id x = user_id item) st")
    case None
    then have no: "\<forall>x \<in> set st. user_id x \<noteq> user_id item"
      by (simp add: find_None_iff)
    have id: "uad_id r = Some (fresh_id st)" using r None by simp
    have "Some (fresh_id st) \<notin> uad_id ` set st"
      using fresh_id_new by force
    moreover have "user_id item \<notin> user_id ` set st" using no by force
    ultimately show ?thesis
      using inv st' None id u by (simp add: store_inv_def)
  next
    case (Some saved)
    then have mem: "saved \<in> set st" and us: "user_id saved = user_id item"
      by (auto simp add: find_Some_iff)
    have id: "uad_id r = uad_id saved" using r Some by simp
    have d: "distinct (map uad_id st)" using inv by (simp add: store_inv_def)
    have st'': "st' = map (\<lambda>x. if uad_id x = uad_id saved then r else x) st"
      using st' Some by simp
    have "map uad_id st' = map uad_id st" and "map user_id st' = map user_id st"
      unfolding st'' using replace_keeps_keys [OF d mem id] u us by simp_all
    then show ?thesis
      using inv by (simp add: store_inv_def)
  qed
  show "r \<in> set st'"
  proof (cases "find (\<lambda>x. user_id x = user_id item) st")
    case None
    then show ?thesis using st' by simp
  next
    case (Some saved)
    then have mem: "saved \<in> set st" by (auto simp add: find_Some_iff)
    then show ?thesis using st' Some by force
  qed
qed

text \<open>
  Claim C5. Over a store that holds at most one record per identity and per internal
  user, two resolved calls of \<^verbatim>\<open>add\<close> for the same internal user id, one after the
  other, leave exactly one stored record for that user. It is the record the second call
  returns: the second call's data with the payload merged and the status set, under the
  identity of the record the first call returned. The second call ends in one \<^verbatim>\<open>update\<close>
  and the store does not grow. The first call ends in a \<^verbatim>\<open>create\<close> and a store larger by
  one when the user had no record, and in an \<^verbatim>\<open>update\<close> under the identity of the
  record found when the user had one.
\<close>

theorem link_twice_one_record:
  assumes "store_inv st0"
    and "add (store_ports introspect directory) item1 (tr0, st0) = (Inr r1, (tr1, st1))"
    and "add (store_ports introspect directory) item2 (tr1, st1) = (Inr r2, (tr2, st2))"
    and "user_id item2 = user_id item1"
    and "fitbit item2 = Some f2" and "introspect (access_token f2) = Inr p2"
  shows "filter (\<lambda>x. user_id x = user_id item1) st2 = [r2] \<and>
         r2 = item2\<lparr>fitbit := Some (linked p2 f2), uad_id := uad_id r1\<rparr> \<and>
         length st2 = length st1 \<and> last tr2 = Update r2 \<and>
         (find (\<lambda>x. user_id x = user_id item1) st0 = None \<longrightarrow>
            length st1 = Suc (length st0) \<and> last tr1 = Create (r1\<lparr>uad_id := uad_id item1\<rparr>)) \<and>
         (\<forall>saved. find (\<lambda>x. user_id x = user_id item1) st0 = Some saved \<longrightarrow>
            uad_id r1 = uad_id saved \<and> length st1 = length st0 \<and> last tr1 = Update r1)"
proof -
  note first = add_store_resolves [OF assms(1,2)]
  have inv1: "store_inv st1" by (rule first(1))
  have "find (\<lambda>x. user_id x = user_id r1) st1 = Some r1"
    using inv1 first(2) by (simp add: store_inv_def find_unique)
  then have found: "find (\<lambda>x. user_id x = user_id item2) st1 = Some r1"
    using first(3) assms(4) by simp
  note second = add_store_resolves [OF inv1 assms(3)]
  have upd: "uad_id r2 = uad_id r1 \<and> length st2 = length st1 \<and> last tr2 = Update r2"
    using second(5) [OF found] .
  have "filter (\<lambda>x. user_id x = user_id r2) st2 = [r2]"
    using second(1,2) by (simp add: store_inv_def filter_unique)
  then have one: "filter (\<lambda>x. user_id x = user_id item1) st2 = [r2]"
    using second(3) assms(4) by simp
  from assms(3) have t2:
    "add_try (store_ports introspect directory) item2 (tr1, st1) = (Inr r2, (tr2, st2))"
    by (simp add: add_resolves_iff)
  have r2: "r2 = item2\<lparr>fitbit := Some (linked p2 f2), uad_id := uad_id r1\<rparr>"
    by (rule add_try_store_resolves [OF t2]) (use assms(5,6) found in simp)
  from assms(2) have t1:
    "add_try (store_ports introspect directory) item1 (tr0, st0) = (Inr r1, (tr1, st1))"
    by (simp add: add_resolves_iff)
  have created: "find (\<lambda>x. user_id x = user_id item1) st0 = None \<longrightarrow>
      length st1 = Suc (length st0) \<and> last tr1 = Create (r1\<lparr>uad_id := uad_id item1\<rparr>)"
    by (rule add_try_store_resolves [OF t1]) simp
  show ?thesis
    using one r2 upd created first(5) by simp
qed

text \<open>Two links of user \<^verbatim>\<open>u1\<close> into the empty store, the second with another access
  token: the store ends with the one record that carries the second token.\<close>

theorem link_twice_one_record_witness:
  "filter (\<lambda>x. user_id x = Some ''u1'')
     (snd (snd (add (store_ports (\<lambda>t. Inr (example_payload ''rwei ract rsle'')) (\<lambda>u. Inr True))
        (example_item ''u1'' (Some (example_fitbit ''tok-xyz'' ''rwei'' None)))
        (snd (add (store_ports (\<lambda>t. Inr (example_payload ''rwei ract rsle'')) (\<lambda>u. Inr True))
           (example_item ''u1'' (Some (example_fitbit ''tok-abc'' ''rwei'' None))) ([], []))))))
   = [\<lparr> uad_id = Some ''0'', user_id = Some ''u1'',
        fitbit = Some \<lparr> fitbit_user_id = Some ''p1'', access_token = Some ''tok-xyz'',
          expires_in = Some 3600, refresh_token = Some ''refresh-1'',
          scope = Some ''rwei ract rsle'', token_type = Some ''Bearer'',
          status = Some ''valid_token'', last_sync = None \<rparr> \<rparr>]"
proof -
  let ?P = "store_ports (\<lambda>t. Inr (example_payload ''rwei ract rsle'')) (\<lambda>u. Inr True)"
  let ?i1 = "example_item ''u1'' (Some (example_fitbit ''tok-abc'' ''rwei'' None))"
  let ?i2 = "example_item ''u1'' (Some (example_fitbit ''tok-xyz'' ''rwei'' None))"
  let ?r1 = "\<lparr> uad_id = Some ''0'', user_id = Some ''u1'',
        fitbit = Some \<lparr> fitbit_user_id = Some ''p1'', access_token = Some ''tok-abc'',
          expires_in = Some 3600, refresh_token = Some ''refresh-1'',
          scope = Some ''rwei ract rsle'', token_type = Some ''Bearer'',
          status = Some ''valid_token'', last_sync = None \<rparr> \<rparr>"
  let ?r2 = "\<lparr> uad_id = Some ''0'', user_id = Some ''u1'',
        fitbit = Some \<lparr> fitbit_user_id = Some ''p1'', access_token = Some ''tok-xyz'',
          expires_in = Some 3600, refresh_token = Some ''refresh-1'',
          scope = Some ''rwei ract rsle'', token_type = Some ''Bearer'',
          status = Some ''valid_token'', last_sync = None \<rparr> \<rparr>"
  let ?X1 = "add ?P ?i1 ([], [])"
  let ?X2 = "add ?P ?i2 (fst (snd ?X1), snd (snd ?X1))"
  have o1: "fst ?X1 = Inr ?r1" and s1: "snd (snd ?X1) = [?r1]"
    by (simp_all add: service_defs example_defs store_defs)
  have o2g: "fst (add ?P ?i2 (tr, [?r1])) = Inr ?r2" for tr
    by (simp add: service_defs example_defs store_defs)
  have o2: "fst ?X2 = Inr ?r2"
    unfolding s1 by (rule o2g)
  have h1: "?X1 = (Inr ?r1, (fst (snd ?X1), snd (snd ?X1)))"
    using o1 by (metis prod.collapse)
  have h2: "?X2 = (Inr ?r2, (fst (snd ?X2), snd (snd ?X2)))"
    using o2 by (metis prod.collapse)
  have inv: "store_inv []" by (simp add: store_inv_def)
  have "filter (\<lambda>x. user_id x = user_id ?i1) (snd (snd ?X2)) = [?r2]"
    using link_twice_one_record [OF inv h1 h2, of "example_fitbit ''tok-xyz'' ''rwei'' None"
        "example_payload ''rwei ract rsle''"]
    by (simp add: example_defs)
  then show ?thesis by (simp add: example_defs)
qed

section \<open>Requesting a sync\<close>

text \<open>
  Claim C7. When the lookup finds no record, or a record without the provider
  sub-structure, \<^verbatim>\<open>syncFitbitUserData\<close> fails with the missing-credential validation
  exception and the lookup is the only call made. When the record has the sub-structure,
  one sync is called with that credential, its last sync, one attempt and the user id,
  and the operation ends as that call ends.
\<close>

theorem syncFitbitUserData_requires_credential:
  "(findOne P (Filter_user_id (Some userId)) w = (Inr None, w') \<longrightarrow>
      syncFitbitUserData P userId ([], w) =
        (Inl missing_credential, ([FindOne (Filter_user_id (Some userId))], w'))) \<and>
   (findOne P (Filter_user_id (Some userId)) w = (Inr (Some a), w') \<and> fitbit a = None \<longrightarrow>
      syncFitbitUserData P userId ([], w) =
        (Inl missing_credential, ([FindOne (Filter_user_id (Some userId))], w'))) \<and>
   (findOne P (Filter_user_id (Some userId)) w = (Inr (Some a), w') \<and> fitbit a = Some f \<and>
    repo_syncFitbitUserData P f (last_sync f) 1 (Some userId) w' = (r, w'') \<longrightarrow>
      syncFitbitUserData P userId ([], w) =
        (r, ([FindOne (Filter_user_id (Some userId)),
              SyncFitbitUserData f (last_sync f) 1 (Some userId)], w'')))"
  by (simp add: syncFitbitUserData_def await_def invoke_def reject_def)

theorem syncFitbitUserData_requires_credential_witness:
  "syncFitbitUserData (example_ports (example_payload ''rwei'') (Inr True) None) ''u1'' ([], ())
     = (Inl missing_credential, ([FindOne (Filter_user_id (Some ''u1''))], ())) \<and>
   syncFitbitUserData (example_ports (example_payload ''rwei'') (Inr True)
        (Some (example_item ''u1'' None))) ''u1'' ([], ())
     = (Inl missing_credential, ([FindOne (Filter_user_id (Some ''u1''))], ())) \<and>
   syncFitbitUserData (example_ports (example_payload ''rwei'') (Inr True)
        (Some (example_item ''u1'' (Some (example_fitbit ''tok-abc'' ''rwei'' None)))))
        ''u1'' ([], ())
     = (Inr (DataSync ''synced''),
        ([FindOne (Filter_user_id (Some ''u1'')),
          SyncFitbitUserData (example_fitbit ''tok-abc'' ''rwei'' None) None 1 (Some ''u1'')],
         ()))"
  using syncFitbitUserData_requires_credential
      [where P = "example_ports (example_payload ''rwei'') (Inr True) None"
         and userId = "''u1''" and w = "()" and w' = "()"]
    syncFitbitUserData_requires_credential
      [where P = "example_ports (example_payload ''rwei'') (Inr True)
                    (Some (example_item ''u1'' None))"
         and userId = "''u1''" and w = "()" and w' = "()" and a = "example_item ''u1'' None"]
    syncFitbitUserData_requires_credential
      [where P = "example_ports (example_payload ''rwei'') (Inr True)
                    (Some (example_item ''u1'' (Some (example_fitbit ''tok-abc'' ''rwei'' None))))"
         and userId = "''u1''" and w = "()" and w' = "()" and w'' = "()"
         and a = "example_item ''u1'' (Some (example_fitbit ''tok-abc'' ''rwei'' None))"
         and f = "example_fitbit ''tok-abc'' ''rwei'' None" and r = "Inr (DataSync ''synced'')"]
  by (simp add: example_defs)

section \<open>Revoking a credential\<close>

text \<open>For a user id the validator accepts: when the lookup finds no record,
  \<^verbatim>\<open>revokeFitbitAccessToken\<close> resolves with \<^verbatim>\<open>false\<close> and the lookup is the only call;
  when it finds a record that has the provider sub-structure, the token is revoked with
  the access token stored there, and the operation resolves with \<^verbatim>\<open>true\<close> when the
  revocation resolves and fails with the revocation's failure when it fails.\<close>

lemma revoke_linked_or_absent:
  assumes "validate_object_id P userId = None"
  shows
  "(findOne P (Filter_user_id (Some userId)) w = (Inr None, w') \<longrightarrow>
      revokeFitbitAccessToken P userId ([], w) =
        (Inr False, ([FindOne (Filter_user_id (Some userId))], w'))) \<and>
   (findOne P (Filter_user_id (Some userId)) w = (Inr (Some a), w') \<and> fitbit a = Some f \<and>
    revokeToken P (access_token f) w' = (Inr (), w'') \<longrightarrow>
      revokeFitbitAccessToken P userId ([], w) =
        (Inr True,
         ([FindOne (Filter_user_id (Some userId)), RevokeToken (access_token f)], w''))) \<and>
   (findOne P (Filter_user_id (Some userId)) w = (Inr (Some a), w') \<and> fitbit a = Some f \<and>
    revokeToken P (access_token f) w' = (Inl e, w'') \<longrightarrow>
      revokeFitbitAccessToken P userId ([], w) =
        (Inl e,
         ([FindOne (Filter_user_id (Some userId)), RevokeToken (access_token f)], w'')))"
  using assms
  by (simp add: revokeFitbitAccessToken_def await_def invoke_def reject_def resolve_def)

text \<open>
  Claim C8. For every stored record the token should be revoked and \<^verbatim>\<open>true\<close> returned.
  For a stored record that has no provider sub-structure the read of
  \<^verbatim>\<open>authData.fitbit!.access_token\<close> at line 90 fails: the operation rejects with the
  type error, resolves with nothing, and the revocation is not called.
  \<^verbatim>\<open>syncFitbitUserData\<close> checks for that sub-structure at line 101 before it reads it.
\<close>

theorem revoke_without_credential_fails:
  "revokeFitbitAccessToken (example_ports (example_payload ''rwei'') (Inr True)
       (Some (example_item ''u1'' None))) ''u1'' ([], ())
     = (Inl (TypeError ''access_token''), ([FindOne (Filter_user_id (Some ''u1''))], ()))"
  by (simp add: revokeFitbitAccessToken_def await_def invoke_def reject_def resolve_def
      example_defs)

text \<open>
  Claim C10. \<^verbatim>\<open>revokeFitbitAccessToken\<close> reads the access token of the record it finds
  without a guard. For an accepted user id and a found record: when the record has no
  provider sub-structure the read fails with the type error and no revocation is called,
  where \<^verbatim>\<open>syncFitbitUserData\<close>, which checks, answers with its missing-credential
  exception; when the record has the sub-structure the revocation is called with the
  stored access token and alone decides the outcome.
\<close>

theorem revoke_reads_credential_unguarded:
  assumes "validate_object_id P userId = None"
    and "findOne P (Filter_user_id (Some userId)) w = (Inr (Some a), w')"
  shows
  "(fitbit a = None \<longrightarrow>
      revokeFitbitAccessToken P userId ([], w) =
        (Inl (TypeError ''access_token''), ([FindOne (Filter_user_id (Some userId))], w')) \<and>
      syncFitbitUserData P userId ([], w) =
        (Inl missing_credential, ([FindOne (Filter_user_id (Some userId))], w'))) \<and>
   (\<forall>f. fitbit a = Some f \<longrightarrow>
      calls (revokeFitbitAccessToken P userId ([], w)) =
        [FindOne (Filter_user_id (Some userId)), RevokeToken (access_token f)] \<and>
      outcome (revokeFitbitAccessToken P userId ([], w)) =
        (case fst (revokeToken P (access_token f) w') of Inl e \<Rightarrow> Inl e | Inr u \<Rightarrow> Inr True))"
  using assms
  by (auto simp add: revokeFitbitAccessToken_def syncFitbitUserData_def await_def invoke_def
      reject_def resolve_def outcome_def calls_def split: prod.splits sum.splits)

theorem revoke_reads_credential_unguarded_witness:
  "outcome (revokeFitbitAccessToken (example_ports (example_payload ''rwei'') (Inr True)
       (Some (example_item ''u2'' None))) ''u2'' ([], ()))
     = Inl (TypeError ''access_token'') \<and>
   filter is_revoke (calls (revokeFitbitAccessToken
       (example_ports (example_payload ''rwei'') (Inr True)
          (Some (example_item ''u2'' None))) ''u2'' ([], ())))
     = [] \<and>
   outcome (syncFitbitUserData (example_ports (example_payload ''rwei'') (Inr True)
       (Some (example_item ''u2'' None))) ''u2'' ([], ()))
     = Inl missing_credential"
proof -
  let ?P = "example_ports (example_payload ''rwei'') (Inr True) (Some (example_item ''u2'' None))"
  have v: "validate_object_id ?P ''u2'' = None"
    by (simp add: example_defs)
  have l: "findOne ?P (Filter_user_id (Some ''u2'')) () = (Inr (Some (example_item ''u2'' None)), ())"
    by (simp add: example_defs)
  show ?thesis
    using revoke_reads_credential_unguarded [OF v l]
    by (simp add: example_defs outcome_def calls_def)
qed

section \<open>Merging the introspection payload\<close>

text \<open>
  Claim C9, as the code has it. When the record has its provider sub-structure and
  introspection answers with a payload, \<^verbatim>\<open>manageFitbitAuthData\<close> makes that one call and
  resolves with the record in which the provider user id, the scope and the expiry are
  replaced by the payload's \<^verbatim>\<open>sub\<close>, \<^verbatim>\<open>scopes\<close> and \<^verbatim>\<open>exp\<close> where these are truthy
  (a non-empty string, a number other than zero) and kept where they are absent or
  falsy, the token type is \<^verbatim>\<open>Bearer\<close>, and every other field is as it was.
\<close>

theorem manage_merges_truthy_fields:
  assumes "fitbit data = Some f"
    and "getTokenPayload P (access_token f) w = (Inr payload, w')"
  shows "manageFitbitAuthData P data ([], w) =
           (Inr (data\<lparr>fitbit := Some (f
              \<lparr> fitbit_user_id :=
                   (if truthy_string (sub payload) then sub payload else fitbit_user_id f),
                 scope := (if truthy_string (scopes payload) then scopes payload else scope f),
                 expires_in :=
                   (if truthy_number (exp payload) then exp payload else expires_in f),
                 token_type := Some ''Bearer'' \<rparr>)\<rparr>),
            ([GetTokenPayload (access_token f)], w'))"
  using assms
  by (simp add: manageFitbitAuthData_def await_def invoke_def resolve_def merge_payload_def
      Let_def)

text \<open>A payload without \<^verbatim>\<open>scopes\<close>: the scope of the record is kept.\<close>

theorem manage_merges_truthy_fields_witness:
  "manageFitbitAuthData
      (example_ports \<lparr>sub = Some ''p1'', scopes = None, exp = Some 3600\<rparr> (Inr True) None)
      (example_item ''u1'' (Some (example_fitbit ''tok-abc'' ''rwei ract rsle'' None))) ([], ())
   = (Inr (example_item ''u1'' (Some ((example_fitbit ''tok-abc'' ''rwei ract rsle'' None)
        \<lparr>fitbit_user_id := Some ''p1'', expires_in := Some 3600,
          token_type := Some ''Bearer''\<rparr>))),
      ([GetTokenPayload (Some ''tok-abc'')], ()))"
  using manage_merges_truthy_fields
    [of "example_item ''u1'' (Some (example_fitbit ''tok-abc'' ''rwei ract rsle'' None))"
        "example_fitbit ''tok-abc'' ''rwei ract rsle'' None"
        "example_ports \<lparr>sub = Some ''p1'', scopes = None, exp = Some 3600\<rparr> (Inr True) None"
        "()" "\<lparr>sub = Some ''p1'', scopes = None, exp = Some 3600\<rparr>" "()"]
  by (simp add: example_defs truthy_string_def truthy_number_def)

text \<open>
  Claim C9 as stated fails for a payload whose \<^verbatim>\<open>scopes\<close> is the empty string and whose
  \<^verbatim>\<open>exp\<close> is zero: both fields are present in the payload, and the record keeps its
  scope and its expiry.
\<close>

theorem present_falsy_fields_counterexample:
  "outcome (manageFitbitAuthData
      (example_ports \<lparr>sub = Some ''p1'', scopes = Some [], exp = Some 0\<rparr> (Inr True) None)
      (example_item ''u1''
         (Some ((example_fitbit ''tok-abc'' ''rwei ract rsle'' None)\<lparr>expires_in := Some 3600\<rparr>)))
      ([], ()))
   = Inr (example_item ''u1'' (Some ((example_fitbit ''tok-abc'' ''rwei ract rsle'' None)
        \<lparr>fitbit_user_id := Some ''p1'', expires_in := Some 3600,
          token_type := Some ''Bearer''\<rparr>)))"
  by (simp add: service_defs example_defs)

end
